theory Spec2Isabelle
  imports Complex_Main "HOL-Library.Word"
begin

section \<open>Values of the host language\<close>

text \<open>
  The helpers of \<^verbatim>\<open>src/lib/guards.ts\<close>, \<^verbatim>\<open>src/lib/errors.ts\<close>,
  \<^verbatim>\<open>src/lib/validation.ts\<close> and \<^verbatim>\<open>src/types/api.ts\<close> inspect values at run time
  (\<^verbatim>\<open>typeof\<close>, \<^verbatim>\<open>instanceof\<close>, \<^verbatim>\<open>Array.isArray\<close>), so a value is a tagged union of the
  kinds JavaScript has.

  A number is the not-a-number sentinel, one of the two infinities, or a finite value.
  The code only classifies and compares numbers, it never computes with them, so a
  finite value is carried as a rational; every finite double is one.

  A string is a sequence of UTF-16 code units, each a 16-bit word; its \<^verbatim>\<open>length\<close>
  is the number of code units. A string literal of the source is written \<open>str ''...''\<close>:
  the literals are ASCII, one code unit for each character.
\<close>

datatype jsnum = NaN | PosInf | NegInf | Fin rat

type_synonym code_unit = "16 word"

type_synonym jsstring = "code_unit list"

definition unit_of :: "char \<Rightarrow> code_unit" where
  "unit_of c = of_char c"

definition str :: "string \<Rightarrow> jsstring" where
  "str s = map unit_of s"

datatype errclass =
    ErrorC | TypeErrorC | AppErrorC
  | ValidationErrorC | NotFoundErrorC | UnauthorizedErrorC | ForbiddenErrorC | ConflictErrorC

text \<open>
  An instance of \<^verbatim>\<open>Error\<close> or of one of its subclasses: the class it was constructed
  with and the fields the constructors assign. \<^verbatim>\<open>code\<close> and \<^verbatim>\<open>statusCode\<close> exist only
  on instances that went through the \<^verbatim>\<open>AppError\<close> constructor. The call
  \<^verbatim>\<open>Error.captureStackTrace(this, this.constructor)\<close> only records a stack trace: the
  host is taken to provide it (as V8 does), and the trace is not part of the model.
\<close>

record errobj =
  cls :: errclass
  name :: jsstring
  message :: jsstring
  code :: "jsstring option"
  statusCode :: "jsnum option"

datatype jsval =
    JUndefined
  | JNull
  | JBool bool
  | JNum jsnum
  | JBigInt int
  | JStr jsstring
  | JSymbol jsstring
  | JFunction nat
  | JArr "jsval list"
  | JObj "(jsstring \<times> jsval) list"
  | JErr errobj

text \<open>The \<^verbatim>\<open>typeof\<close> operator.\<close>

fun typeof :: "jsval \<Rightarrow> jsstring" where
  "typeof JUndefined = str ''undefined''"
| "typeof JNull = str ''object''"
| "typeof (JBool b) = str ''boolean''"
| "typeof (JNum n) = str ''number''"
| "typeof (JBigInt i) = str ''bigint''"
| "typeof (JStr s) = str ''string''"
| "typeof (JSymbol s) = str ''symbol''"
| "typeof (JFunction f) = str ''function''"
| "typeof (JArr xs) = str ''object''"
| "typeof (JObj kvs) = str ''object''"
| "typeof (JErr e) = str ''object''"

text \<open>\<^verbatim>\<open>Number.isNaN\<close>: true only for the number NaN, no coercion.\<close>

fun Number_isNaN :: "jsval \<Rightarrow> bool" where
  "Number_isNaN (JNum NaN) = True"
| "Number_isNaN v = False"

fun Array_isArray :: "jsval \<Rightarrow> bool" where
  "Array_isArray (JArr xs) = True"
| "Array_isArray v = False"

text \<open>
  The relational operator \<^verbatim>\<open><\<close> on two numbers: false as soon as one side is NaN.
  \<^verbatim>\<open>a > b\<close> is \<open>num_less b a\<close>.
\<close>

fun num_less :: "jsnum \<Rightarrow> jsnum \<Rightarrow> bool" where
  "num_less NaN y = False"
| "num_less x NaN = False"
| "num_less PosInf y = False"
| "num_less x NegInf = False"
| "num_less NegInf y = True"
| "num_less x PosInf = True"
| "num_less (Fin a) (Fin b) = (a < b)"

section \<open>Type guards (\<^verbatim>\<open>src/lib/guards.ts\<close>)\<close>

definition isNotNull :: "jsval \<Rightarrow> bool" where
  "isNotNull v = (v \<noteq> JNull \<and> v \<noteq> JUndefined)"

definition isDefined :: "jsval \<Rightarrow> bool" where
  "isDefined v = (v \<noteq> JUndefined)"

definition isString :: "jsval \<Rightarrow> bool" where
  "isString v = (typeof v = str ''string'')"

definition isNumber :: "jsval \<Rightarrow> bool" where
  "isNumber v = (typeof v = str ''number'' \<and> \<not> Number_isNaN v)"

definition isBoolean :: "jsval \<Rightarrow> bool" where
  "isBoolean v = (typeof v = str ''boolean'')"

definition isArray :: "jsval \<Rightarrow> bool" where
  "isArray v = Array_isArray v"

section \<open>Error taxonomy (\<^verbatim>\<open>src/lib/errors.ts\<close>)\<close>

text \<open>
  The \<^verbatim>\<open>extends\<close> clauses: the classes on the prototype chain of an instance, its own
  class first. \<^verbatim>\<open>e instanceof C\<close> holds when \<open>C\<close> is on the chain of the class of \<open>e\<close>.
\<close>

fun prototype_chain :: "errclass \<Rightarrow> errclass list" where
  "prototype_chain ErrorC = [ErrorC]"
| "prototype_chain TypeErrorC = [TypeErrorC, ErrorC]"
| "prototype_chain AppErrorC = [AppErrorC, ErrorC]"
| "prototype_chain ValidationErrorC = [ValidationErrorC, AppErrorC, ErrorC]"
| "prototype_chain NotFoundErrorC = [NotFoundErrorC, AppErrorC, ErrorC]"
| "prototype_chain UnauthorizedErrorC = [UnauthorizedErrorC, AppErrorC, ErrorC]"
| "prototype_chain ForbiddenErrorC = [ForbiddenErrorC, AppErrorC, ErrorC]"
| "prototype_chain ConflictErrorC = [ConflictErrorC, AppErrorC, ErrorC]"

fun instanceof :: "jsval \<Rightarrow> errclass \<Rightarrow> bool" where
  "instanceof (JErr e) C = (C \<in> set (prototype_chain (cls e)))"
| "instanceof v C = False"

text \<open>
  Constructors. The first argument of the two base constructors is the class named in
  the \<^verbatim>\<open>new\<close> expression (\<^verbatim>\<open>new.target\<close>), which a \<^verbatim>\<open>super(...)\<close> call passes
  on. An optional parameter with a default is an \<open>option\<close>: \<open>None\<close> is the omitted argument.
\<close>

definition Error_ctor :: "errclass \<Rightarrow> jsstring \<Rightarrow> errobj" where
  "Error_ctor new_target msg =
     \<lparr>cls = new_target, name = str ''Error'', message = msg, code = None, statusCode = None\<rparr>"

definition AppError_ctor :: "errclass \<Rightarrow> jsstring \<Rightarrow> jsstring \<Rightarrow> jsnum option \<Rightarrow> errobj" where
  "AppError_ctor new_target msg c sc =
     (Error_ctor new_target msg)
       \<lparr>code := Some c,
        statusCode := Some (case sc of None \<Rightarrow> Fin 500 | Some n \<Rightarrow> n),
        name := str ''AppError''\<rparr>"

definition new_Error :: "jsstring \<Rightarrow> errobj" where
  "new_Error msg = Error_ctor ErrorC msg"

definition new_AppError :: "jsstring \<Rightarrow> jsstring \<Rightarrow> jsnum option \<Rightarrow> errobj" where
  "new_AppError msg c sc = AppError_ctor AppErrorC msg c sc"

definition new_ValidationError :: "jsstring \<Rightarrow> errobj" where
  "new_ValidationError msg =
     (AppError_ctor ValidationErrorC msg (str ''VALIDATION_ERROR'') (Some (Fin 400)))
       \<lparr>name := str ''ValidationError''\<rparr>"

definition new_NotFoundError :: "jsstring \<Rightarrow> errobj" where
  "new_NotFoundError resource =
     (AppError_ctor NotFoundErrorC (resource @ str '' not found'') (str ''NOT_FOUND'')
        (Some (Fin 404)))
       \<lparr>name := str ''NotFoundError''\<rparr>"

definition new_UnauthorizedError :: "jsstring option \<Rightarrow> errobj" where
  "new_UnauthorizedError msg =
     (AppError_ctor UnauthorizedErrorC
        (case msg of None \<Rightarrow> str ''Unauthorized'' | Some m \<Rightarrow> m)
        (str ''UNAUTHORIZED'') (Some (Fin 401)))
       \<lparr>name := str ''UnauthorizedError''\<rparr>"

definition new_ForbiddenError :: "jsstring option \<Rightarrow> errobj" where
  "new_ForbiddenError msg =
     (AppError_ctor ForbiddenErrorC
        (case msg of None \<Rightarrow> str ''Forbidden'' | Some m \<Rightarrow> m)
        (str ''FORBIDDEN'') (Some (Fin 403)))
       \<lparr>name := str ''ForbiddenError''\<rparr>"

definition new_ConflictError :: "jsstring \<Rightarrow> errobj" where
  "new_ConflictError msg =
     (AppError_ctor ConflictErrorC msg (str ''CONFLICT'') (Some (Fin 409)))
       \<lparr>name := str ''ConflictError''\<rparr>"

definition isAppError :: "jsval \<Rightarrow> bool" where
  "isAppError error = instanceof error AppErrorC"

section \<open>Strings and the email pattern\<close>

text \<open>
  White space as \<^verbatim>\<open>\s\<close> and \<^verbatim>\<open>String.prototype.trim\<close> see it; the two use the same
  set, WhiteSpace and LineTerminator of ECMAScript: TAB, LF, VT, FF, CR, SPACE, NO-BREAK
  SPACE, the other space separators (U+1680, U+2000 to U+200A, U+202F, U+205F, U+3000), the
  line and paragraph separators U+2028 and U+2029, and U+FEFF.
\<close>

definition isWhiteSpace :: "code_unit \<Rightarrow> bool" where
  "isWhiteSpace u =
     (u \<in> set [0x0009, 0x000A, 0x000B, 0x000C, 0x000D, 0x0020, 0x00A0, 0x1680,
               0x2000, 0x2001, 0x2002, 0x2003, 0x2004, 0x2005, 0x2006, 0x2007, 0x2008,
               0x2009, 0x200A, 0x2028, 0x2029, 0x202F, 0x205F, 0x3000, 0xFEFF])"

definition trim :: "jsstring \<Rightarrow> jsstring" where
  "trim s = rev (dropWhile isWhiteSpace (rev (dropWhile isWhiteSpace s)))"

text \<open>
  The fragment of regular expressions that \<^verbatim>\<open>emailRegex\<close> is written in: a pattern
  anchored at both ends (\<^verbatim>\<open>^\<close> ... \<^verbatim>\<open>$\<close>, no flags) is a sequence of atoms, each taken
  once or quantified by \<^verbatim>\<open>+\<close>; an atom is a literal character or a negated class
  \<^verbatim>\<open>[^...]\<close> of literal characters and \<^verbatim>\<open>\s\<close>. Without the \<^verbatim>\<open>u\<close> flag an atom
  consumes one code unit.
\<close>

datatype class_item = ClassEscape_s | ClassChar code_unit

datatype atom = PatternChar code_unit | NegatedClass "class_item list"

datatype quantified = Once atom | OneOrMore atom

fun class_item_matches :: "class_item \<Rightarrow> code_unit \<Rightarrow> bool" where
  "class_item_matches ClassEscape_s c = isWhiteSpace c"
| "class_item_matches (ClassChar d) c = (c = d)"

fun atom_matches :: "atom \<Rightarrow> code_unit \<Rightarrow> bool" where
  "atom_matches (PatternChar d) c = (c = d)"
| "atom_matches (NegatedClass items) c = (\<not> list_ex (\<lambda>i. class_item_matches i c) items)"

text \<open>
  \<^verbatim>\<open>RegExp.prototype.test\<close> for an anchored pattern without flags: the whole input has
  to be consumed. A \<^verbatim>\<open>+\<close> first tries to take more (greedy) and backtracks to the rest
  of the pattern.
\<close>

fun regex_test :: "quantified list \<Rightarrow> jsstring \<Rightarrow> bool" where
  "regex_test [] s = (s = [])"
| "regex_test (q # qs) [] = False"
| "regex_test (Once a # qs) (c # cs) = (atom_matches a c \<and> regex_test qs cs)"
| "regex_test (OneOrMore a # qs) (c # cs) =
     (atom_matches a c \<and> (regex_test (OneOrMore a # qs) cs \<or> regex_test qs cs))"

text \<open>\<^verbatim>\<open>/^[^\s@]+@[^\s@]+\.[^\s@]+$/\<close>\<close>

definition emailRegex :: "quantified list" where
  "emailRegex =
     [OneOrMore (NegatedClass [ClassEscape_s, ClassChar (unit_of (CHR ''@''))]),
      Once (PatternChar (unit_of (CHR ''@''))),
      OneOrMore (NegatedClass [ClassEscape_s, ClassChar (unit_of (CHR ''@''))]),
      Once (PatternChar (unit_of (CHR ''.''))),
      OneOrMore (NegatedClass [ClassEscape_s, ClassChar (unit_of (CHR ''@''))])]"

text \<open>\<^verbatim>\<open>Array.prototype.join\<close> on an array of strings.\<close>

fun join :: "jsstring \<Rightarrow> jsstring list \<Rightarrow> jsstring" where
  "join sep [] = []"
| "join sep [x] = x"
| "join sep (x # y # ys) = x @ sep @ join sep (y # ys)"

section \<open>Validation helpers (\<^verbatim>\<open>src/lib/validation.ts\<close>)\<close>

text \<open>
  A helper returns \<open>Inr\<close> of its result or \<open>Inl\<close> of the object it throws. The value
  under validation is any \<^typ>\<open>jsval\<close>, since the helpers test its kind at run time;
  field names and constraints have their declared types. After a guard has passed, the
  payload of the value is read with one of the projections below, which are specified
  on the guarded kind only.
\<close>

fun string_of :: "jsval \<Rightarrow> jsstring" where
  "string_of (JStr s) = s"

fun number_of :: "jsval \<Rightarrow> jsnum" where
  "number_of (JNum n) = n"

fun elements_of :: "jsval \<Rightarrow> jsval list" where
  "elements_of (JArr xs) = xs"

text \<open>The \<^verbatim>\<open>length\<close> property of a string or an array, as a number.\<close>

definition length_num :: "'a list \<Rightarrow> jsnum" where
  "length_num xs = Fin (of_nat (length xs))"

text \<open>\<^verbatim>\<open>{ min?: number; max?: number }\<close>: an absent property is \<open>None\<close>.\<close>

record range_constraints =
  min_opt :: "jsnum option"
  max_opt :: "jsnum option"

text \<open>\<^verbatim>\<open>{ minLength?: number; maxLength?: number }\<close>\<close>

record array_constraints =
  minLength :: "jsnum option"
  maxLength :: "jsnum option"

definition validateRequired :: "jsval \<Rightarrow> jsstring \<Rightarrow> errobj + jsval" where
  "validateRequired v fieldName =
     (if \<not> isNotNull v then Inl (new_ValidationError (fieldName @ str '' is required''))
      else Inr v)"

text \<open>
  \<^verbatim>\<open>String.prototype.toLowerCase\<close> is the host's Unicode case conversion, which works
  on whole strings: a character may become two (U+0130) and the capital sigma depends on
  its neighbours. It is the parameter \<open>toLowerCase\<close> of \<open>validateEmail\<close>.
\<close>

definition validateEmail :: "(jsstring \<Rightarrow> jsstring) \<Rightarrow> jsval \<Rightarrow> errobj + jsstring" where
  "validateEmail toLowerCase email =
     (if \<not> isString email then Inl (new_ValidationError (str ''Email must be a string''))
      else if \<not> regex_test emailRegex (string_of email)
      then Inl (new_ValidationError (str ''Invalid email format''))
      else Inr (trim (toLowerCase (string_of email))))"

text \<open>
  \<^verbatim>\<open>new URL(url)\<close> is the host's URL parser; it is the parameter \<open>new_URL\<close>, which
  returns the parsed URL or the exception it throws. The \<^verbatim>\<open>catch\<close> clause has no
  binding: whatever was thrown is dropped.
\<close>

definition validateUrl :: "(jsstring \<Rightarrow> errobj + 'u) \<Rightarrow> jsval \<Rightarrow> errobj + jsstring" where
  "validateUrl new_URL url =
     (if \<not> isString url then Inl (new_ValidationError (str ''URL must be a string''))
      else case new_URL (string_of url) of
             Inr parsed \<Rightarrow> Inr (string_of url)
           | Inl thrown \<Rightarrow> Inl (new_ValidationError (str ''Invalid URL format'')))"

text \<open>
  A number inside a template literal is converted by the host's Number-to-string
  conversion; it is the parameter \<open>toString\<close> of the three helpers that print a bound.
\<close>

definition validateStringLength ::
  "(jsnum \<Rightarrow> jsstring) \<Rightarrow> jsval \<Rightarrow> jsstring \<Rightarrow> range_constraints \<Rightarrow> errobj + jsstring" where
  "validateStringLength toString v fieldName constraints =
     (if \<not> isString v then Inl (new_ValidationError (fieldName @ str '' must be a string''))
      else if min_opt constraints \<noteq> None
              \<and> num_less (length_num (string_of v)) (the (min_opt constraints))
      then Inl (new_ValidationError
             (fieldName @ str '' must be at least '' @ toString (the (min_opt constraints))
                @ str '' characters''))
      else if max_opt constraints \<noteq> None
              \<and> num_less (the (max_opt constraints)) (length_num (string_of v))
      then Inl (new_ValidationError
             (fieldName @ str '' must be at most '' @ toString (the (max_opt constraints))
                @ str '' characters''))
      else Inr (string_of v))"

definition validateNumberRange ::
  "(jsnum \<Rightarrow> jsstring) \<Rightarrow> jsval \<Rightarrow> jsstring \<Rightarrow> range_constraints \<Rightarrow> errobj + jsnum" where
  "validateNumberRange toString v fieldName constraints =
     (if typeof v \<noteq> str ''number'' \<or> Number_isNaN v
      then Inl (new_ValidationError (fieldName @ str '' must be a number''))
      else if min_opt constraints \<noteq> None
              \<and> num_less (number_of v) (the (min_opt constraints))
      then Inl (new_ValidationError
             (fieldName @ str '' must be at least '' @ toString (the (min_opt constraints))))
      else if max_opt constraints \<noteq> None
              \<and> num_less (the (max_opt constraints)) (number_of v)
      then Inl (new_ValidationError
             (fieldName @ str '' must be at most '' @ toString (the (max_opt constraints))))
      else Inr (number_of v))"

definition validateEnum :: "jsval \<Rightarrow> jsstring \<Rightarrow> jsstring list \<Rightarrow> errobj + jsstring" where
  "validateEnum v fieldName allowedValues =
     (if \<not> isString v then Inl (new_ValidationError (fieldName @ str '' must be a string''))
      else if string_of v \<notin> set allowedValues
      then Inl (new_ValidationError
             (fieldName @ str '' must be one of: '' @ join (str '', '') allowedValues))
      else Inr (string_of v))"

text \<open>
  The constraints of \<^verbatim>\<open>validateArray\<close> are themselves optional and read through
  \<^verbatim>\<open>constraints?.minLength\<close>, which is undefined when \<^verbatim>\<open>constraints\<close> is.
\<close>

definition optional_chain :: "'r option \<Rightarrow> ('r \<Rightarrow> 'a option) \<Rightarrow> 'a option" where
  "optional_chain obj field = (case obj of None \<Rightarrow> None | Some r \<Rightarrow> field r)"

definition validateArray ::
  "(jsnum \<Rightarrow> jsstring) \<Rightarrow> jsval \<Rightarrow> jsstring \<Rightarrow> array_constraints option
     \<Rightarrow> errobj + jsval list" where
  "validateArray toString v fieldName constraints =
     (if \<not> Array_isArray v
      then Inl (new_ValidationError (fieldName @ str '' must be an array''))
      else if optional_chain constraints minLength \<noteq> None
              \<and> num_less (length_num (elements_of v)) (the (optional_chain constraints minLength))
      then Inl (new_ValidationError
             (fieldName @ str '' must contain at least ''
                @ toString (the (optional_chain constraints minLength)) @ str '' items''))
      else if optional_chain constraints maxLength \<noteq> None
              \<and> num_less (the (optional_chain constraints maxLength)) (length_num (elements_of v))
      then Inl (new_ValidationError
             (fieldName @ str '' must contain at most ''
                @ toString (the (optional_chain constraints maxLength)) @ str '' items''))
      else Inr (elements_of v))"

section \<open>Response envelope (\<^verbatim>\<open>src/types/api.ts\<close>)\<close>

text \<open>
  An object literal is the list of its properties in the order written. A property
  whose value is \<^verbatim>\<open>undefined\<close> is still a property of the object.
\<close>

definition successResponse :: "jsval \<Rightarrow> jsval" where
  "successResponse data = JObj [(str ''success'', JBool True), (str ''data'', data)]"

definition errorResponse :: "jsstring \<Rightarrow> jsstring option \<Rightarrow> jsval" where
  "errorResponse error code_opt =
     JObj [(str ''success'', JBool False), (str ''error'', JStr error),
           (str ''code'', case code_opt of None \<Rightarrow> JUndefined | Some c \<Rightarrow> JStr c)]"

fun hasOwnProperty :: "jsval \<Rightarrow> jsstring \<Rightarrow> bool" where
  "hasOwnProperty (JObj kvs) k = (k \<in> set (map fst kvs))"
| "hasOwnProperty v k = False"

section \<open>Instances of the host's functions for closed examples\<close>

text \<open>
  The theorems below hold for every Number-to-string conversion, every URL parser and,
  where lower-casing matters, every case conversion with the two properties of
  \<open>toLowerCase_conforms\<close> below. A closed example needs one of each.

  \<open>Number_toString_integral\<close> prints NaN, the infinities and the integers as the host
  does (decimal digits, for magnitudes below \<open>10^21\<close>); of a finite value that is not an
  integer it prints the integer part only, and no example formats one. As URL parser the
  examples take \<open>Inr\<close>, which accepts every string, or \<open>new_URL_rejecting\<close>, which throws a
  TypeError on every string. \<open>toLowerCase_latin1\<close> is the host's lower-casing on strings
  within U+0000 to U+00FF (the letters A to Z and U+00C0 to U+00DE, the multiplication
  sign U+00D7 apart, move up by 32); it leaves every other code unit as it is, which is
  not what the host does, and no example has one.
\<close>

definition new_URL_rejecting :: "jsstring \<Rightarrow> errobj + jsstring" where
  "new_URL_rejecting input = Inl (Error_ctor TypeErrorC (str ''Invalid URL''))"

fun decimal_digits :: "nat \<Rightarrow> jsstring" where
  "decimal_digits n =
     (if n < 10 then [of_nat (48 + n)]
      else decimal_digits (n div 10) @ [of_nat (48 + n mod 10)])"

declare decimal_digits.simps [simp del]

fun Number_toString_integral :: "jsnum \<Rightarrow> jsstring" where
  "Number_toString_integral NaN = str ''NaN''"
| "Number_toString_integral PosInf = str ''Infinity''"
| "Number_toString_integral NegInf = str ''-Infinity''"
| "Number_toString_integral (Fin q) =
     (if q < 0 then str ''-'' else []) @ decimal_digits (nat \<lfloor>\<bar>q\<bar>\<rfloor>)"

definition toLowerCase_unit :: "code_unit \<Rightarrow> code_unit" where
  "toLowerCase_unit u =
     (if (0x41 \<le> u \<and> u \<le> 0x5A) \<or> (0xC0 \<le> u \<and> u \<le> 0xDE \<and> u \<noteq> 0xD7)
      then u + 0x20 else u)"

definition toLowerCase_latin1 :: "jsstring \<Rightarrow> jsstring" where
  "toLowerCase_latin1 s = map toLowerCase_unit s"

section \<open>Notions used to state the properties\<close>

text \<open>The atom under a quantifier.\<close>

fun atom_of :: "quantified \<Rightarrow> atom" where
  "atom_of (Once a) = a"
| "atom_of (OneOrMore a) = a"

text \<open>
  A block of code units can stand where a quantified atom took one code unit: for an atom
  taken once, the block is a single code unit the atom matches; for an atom under
  \<^verbatim>\<open>+\<close>, the block is not empty and the atom matches each of its code units.
\<close>

fun fits :: "quantified \<Rightarrow> jsstring \<Rightarrow> bool" where
  "fits (Once a) b = (case b of [w] \<Rightarrow> atom_matches a w | _ \<Rightarrow> False)"
| "fits (OneOrMore a) b = (b \<noteq> [] \<and> list_all (atom_matches a) b)"

text \<open>
  A finite number, as the specification's text for \<^verbatim>\<open>validateNumberRange\<close> uses the
  word (\<^verbatim>\<open>Number.isFinite\<close>): a number that is neither NaN nor an infinity.
\<close>

fun Number_isFinite :: "jsval \<Rightarrow> bool" where
  "Number_isFinite (JNum (Fin q)) = True"
| "Number_isFinite v = False"

text \<open>
  What the idempotence of \<open>validateEmail\<close> needs of the host's \<^verbatim>\<open>toLowerCase\<close>. The
  two properties are facts of the Unicode case conversion that ECMAScript prescribes; they
  are stated of whole strings and do not ask the conversion to work unit by unit or to
  keep the length.
  \<^item> Lower-casing a lower-cased string changes nothing.
  \<^item> The result is the input with each code unit replaced by a block of code units, where
    a white-space unit, \<^verbatim>\<open>@\<close> and \<^verbatim>\<open>.\<close> are replaced by themselves and any other unit
    by a block that is not empty and holds neither white space nor \<^verbatim>\<open>@\<close>. (The block
    may depend on the neighbours, as for the capital sigma, and may hold two units, as for
    U+0130; the two halves of a surrogate pair are replaced by the two halves of the
    lower-case pair.)
\<close>

definition piece_ok :: "code_unit \<Rightarrow> jsstring \<Rightarrow> bool" where
  "piece_ok u b =
     (if isWhiteSpace u \<or> u = unit_of (CHR ''@'') \<or> u = unit_of (CHR ''.'')
      then b = [u]
      else b \<noteq> [] \<and> list_all (\<lambda>w. \<not> isWhiteSpace w \<and> w \<noteq> unit_of (CHR ''@'')) b)"

definition toLowerCase_conforms :: "(jsstring \<Rightarrow> jsstring) \<Rightarrow> bool" where
  "toLowerCase_conforms lower =
     ((\<forall>s. lower (lower s) = lower s)
      \<and> (\<forall>s. \<exists>bs. list_all2 piece_ok s bs \<and> lower s = concat bs))"

section \<open>Lemmas on string literals, constructors and the email pattern\<close>

lemmas ctor_defs = new_ValidationError_def new_UnauthorizedError_def new_ForbiddenError_def
  new_NotFoundError_def new_ConflictError_def new_AppError_def new_Error_def
  AppError_ctor_def Error_ctor_def

lemmas literal_defs = str_def unit_of_def

lemma new_ValidationError_fields:
  "message (new_ValidationError m) = m
   \<and> cls (new_ValidationError m) = ValidationErrorC
   \<and> name (new_ValidationError m) = str ''ValidationError''
   \<and> code (new_ValidationError m) = Some (str ''VALIDATION_ERROR'')
   \<and> statusCode (new_ValidationError m) = Some (Fin 400)"
  by (simp add: ctor_defs)

lemma isString_iff: "isString v = (\<exists>s. v = JStr s)"
  by (cases v) (simp_all add: isString_def literal_defs)

lemma isString_JStr: "isString (JStr s)"
  by (simp add: isString_iff)

lemma number_guard_iff:
  "(typeof v = str ''number'' \<and> \<not> Number_isNaN v) = (\<exists>n. v = JNum n \<and> n \<noteq> NaN)"
proof (cases v)
  case (JNum n)
  then show ?thesis by (cases n) simp_all
qed (simp_all add: literal_defs)

text \<open>A \<^verbatim>\<open>+\<close> takes a whole block of code units that its atom matches.\<close>

lemma regex_test_block:
  assumes "b \<noteq> []" and "list_all (atom_matches a) b"
    and "regex_test (OneOrMore a # qs) rest \<or> regex_test qs rest"
  shows "regex_test (OneOrMore a # qs) (b @ rest)"
  using assms
proof (induction b)
  case Nil
  then show ?case by simp
next
  case (Cons w b)
  show ?case
  proof (cases "b = []")
    case True
    with Cons.prems show ?thesis by simp
  next
    case False
    with Cons have "regex_test (OneOrMore a # qs) (b @ rest)" by simp
    with Cons.prems show ?thesis by simp
  qed
qed

text \<open>
  A match survives the replacement of each code unit by a block, as long as the block
  fits every quantified atom of the pattern that matches the unit.
\<close>

lemma regex_test_concat:
  assumes "regex_test p s"
    and "list_all2 (\<lambda>u b. list_all (\<lambda>q. atom_matches (atom_of q) u \<longrightarrow> fits q b) p) s bs"
  shows "regex_test p (concat bs)"
  using assms
proof (induction p s arbitrary: bs rule: regex_test.induct)
  case (1 s)
  then show ?case by simp
next
  case (2 q qs)
  then show ?case by simp
next
  case (3 a qs c cs)
  from "3.prems"(2) obtain b bs' where bs: "bs = b # bs'"
    and b: "list_all (\<lambda>q. atom_matches (atom_of q) c \<longrightarrow> fits q b) (Once a # qs)"
    and rest: "list_all2 (\<lambda>u b. list_all (\<lambda>q. atom_matches (atom_of q) u \<longrightarrow> fits q b)
                 (Once a # qs)) cs bs'"
    by (auto simp add: list_all2_Cons1)
  from "3.prems"(1) have m: "atom_matches a c" and r: "regex_test qs cs" by simp_all
  from b m obtain w where w: "b = [w]" "atom_matches a w"
    by (auto split: list.splits)
  from rest have "list_all2 (\<lambda>u b. list_all (\<lambda>q. atom_matches (atom_of q) u \<longrightarrow> fits q b) qs)
      cs bs'"
    by (rule list_all2_mono) simp
  with r have "regex_test qs (concat bs')" by (rule "3.IH")
  with w bs show ?case by simp
next
  case (4 a qs c cs)
  from "4.prems"(2) obtain b bs' where bs: "bs = b # bs'"
    and b: "list_all (\<lambda>q. atom_matches (atom_of q) c \<longrightarrow> fits q b) (OneOrMore a # qs)"
    and rest: "list_all2 (\<lambda>u b. list_all (\<lambda>q. atom_matches (atom_of q) u \<longrightarrow> fits q b)
                 (OneOrMore a # qs)) cs bs'"
    by (auto simp add: list_all2_Cons1)
  from "4.prems"(1) have m: "atom_matches a c"
    and r: "regex_test (OneOrMore a # qs) cs \<or> regex_test qs cs" by simp_all
  from b m have blk: "b \<noteq> []" "list_all (atom_matches a) b" by simp_all
  from rest have rest': "list_all2 (\<lambda>u b. list_all (\<lambda>q. atom_matches (atom_of q) u \<longrightarrow> fits q b)
      qs) cs bs'"
    by (rule list_all2_mono) simp
  have "regex_test (OneOrMore a # qs) (concat bs') \<or> regex_test qs (concat bs')"
    using r
  proof
    assume "regex_test (OneOrMore a # qs) cs"
    then show ?thesis using rest by (simp add: "4.IH"(1))
  next
    assume "regex_test qs cs"
    then show ?thesis using rest' by (simp add: "4.IH"(2))
  qed
  with blk have "regex_test (OneOrMore a # qs) (b @ concat bs')"
    by (rule regex_test_block)
  with bs show ?case by simp
qed

text \<open>Every code unit of a match satisfies what all atoms of the pattern ask for.\<close>

lemma regex_test_all:
  assumes "regex_test p s"
    and "list_all (\<lambda>q. \<forall>c. atom_matches (atom_of q) c \<longrightarrow> P c) p"
  shows "list_all P s"
  using assms
proof (induction p s rule: regex_test.induct)
  case (1 s)
  then show ?case by simp
next
  case (2 q qs)
  then show ?case by simp
next
  case (3 a qs c cs)
  then show ?case by simp
next
  case (4 a qs c cs)
  from "4.prems"(1) have m: "atom_matches a c"
    and r: "regex_test (OneOrMore a # qs) cs \<or> regex_test qs cs" by simp_all
  have "P c" using "4.prems"(2) m by simp
  moreover have "list_all P cs"
    using r
  proof
    assume "regex_test (OneOrMore a # qs) cs"
    then show ?thesis using "4.IH"(1) "4.prems"(2) by simp
  next
    assume "regex_test qs cs"
    then show ?thesis using "4.IH"(2) "4.prems"(2) by simp
  qed
  ultimately show ?case by simp
qed

lemma emailRegex_atoms_no_space:
  "list_all (\<lambda>q. \<forall>c. atom_matches (atom_of q) c \<longrightarrow> \<not> isWhiteSpace c) emailRegex"
  by (simp add: emailRegex_def isWhiteSpace_def unit_of_def)

lemma emailRegex_no_space: "regex_test emailRegex s \<Longrightarrow> list_all (\<lambda>c. \<not> isWhiteSpace c) s"
  by (rule regex_test_all [OF _ emailRegex_atoms_no_space])

lemma piece_ok_fits_emailRegex:
  assumes "piece_ok u b"
  shows "list_all (\<lambda>q. atom_matches (atom_of q) u \<longrightarrow> fits q b) emailRegex"
proof (cases "isWhiteSpace u \<or> u = unit_of (CHR ''@'') \<or> u = unit_of (CHR ''.'')")
  case True
  with assms have "b = [u]" by (simp add: piece_ok_def)
  then show ?thesis by (simp add: emailRegex_def)
next
  case False
  with assms have "b \<noteq> []"
    and "list_all (\<lambda>w. \<not> isWhiteSpace w \<and> w \<noteq> unit_of (CHR ''@'')) b"
    by (simp_all add: piece_ok_def)
  with False show ?thesis by (auto simp add: emailRegex_def list_all_iff)
qed

lemma emailRegex_toLowerCase:
  assumes "toLowerCase_conforms lower" and "regex_test emailRegex s"
  shows "regex_test emailRegex (lower s)"
proof -
  from assms(1) obtain bs where bs: "list_all2 piece_ok s bs" "lower s = concat bs"
    unfolding toLowerCase_conforms_def by blast
  from bs(1)
  have "list_all2 (\<lambda>u b. list_all (\<lambda>q. atom_matches (atom_of q) u \<longrightarrow> fits q b) emailRegex)
      s bs"
    by (rule list_all2_mono) (rule piece_ok_fits_emailRegex)
  with assms(2) have "regex_test emailRegex (concat bs)" by (rule regex_test_concat)
  with bs(2) show ?thesis by simp
qed

lemma trim_no_space: "list_all (\<lambda>c. \<not> isWhiteSpace c) s \<Longrightarrow> trim s = s"
proof -
  assume a: "list_all (\<lambda>c. \<not> isWhiteSpace c) s"
  then have "dropWhile isWhiteSpace s = s"
    by (cases s) simp_all
  moreover from a have "list_all (\<lambda>c. \<not> isWhiteSpace c) (rev s)"
    by (simp add: list_all_iff)
  then have "dropWhile isWhiteSpace (rev s) = rev s"
    by (cases "rev s") simp_all
  ultimately show ?thesis by (simp add: trim_def)
qed

text \<open>
  The result of \<open>validateEmail\<close> on every value. On an accepted string a conforming
  lower-casing leaves \<open>trim\<close> nothing to remove.
\<close>

lemma validateEmail_general:
  "validateEmail lower v =
     (case v of
        JStr s \<Rightarrow> if regex_test emailRegex s then Inr (trim (lower s))
                  else Inl (new_ValidationError (str ''Invalid email format''))
      | _ \<Rightarrow> Inl (new_ValidationError (str ''Email must be a string'')))"
  by (cases v) (simp_all add: validateEmail_def isString_iff)

lemma validateEmail_accepted:
  assumes "toLowerCase_conforms lower" and "regex_test emailRegex s"
  shows "validateEmail lower (JStr s) = Inr (lower s)"
proof -
  from assms have "regex_test emailRegex (lower s)" by (rule emailRegex_toLowerCase)
  then have "trim (lower s) = lower s" by (intro trim_no_space emailRegex_no_space)
  with assms(2) show ?thesis by (simp add: validateEmail_general)
qed

lemma validateEmail_Inr:
  assumes "validateEmail lower x = Inr y"
  shows "\<exists>s. x = JStr s \<and> regex_test emailRegex s \<and> y = trim (lower s)"
  using assms by (cases x) (simp_all add: validateEmail_general split: if_splits)

lemma validateEmail_idem:
  assumes "toLowerCase_conforms lower" and "validateEmail lower x = Inr y"
  shows "validateEmail lower (JStr y) = Inr y"
proof -
  from assms(2) obtain s where s: "x = JStr s" "regex_test emailRegex s"
    using validateEmail_Inr by blast
  with assms have y: "y = lower s" by (simp add: validateEmail_accepted)
  from assms(1) s(2) have "regex_test emailRegex y" unfolding y by (rule emailRegex_toLowerCase)
  with assms(1) have "validateEmail lower (JStr y) = Inr (lower y)"
    by (rule validateEmail_accepted)
  moreover from assms(1) have "lower y = y"
    unfolding y toLowerCase_conforms_def by blast
  ultimately show ?thesis by simp
qed

text \<open>The example lower-casing has the two properties.\<close>

lemma toLowerCase_unit_idem: "toLowerCase_unit (toLowerCase_unit u) = toLowerCase_unit u"
  unfolding toLowerCase_unit_def
  by (auto simp add: word_le_nat_alt unat_word_ariths word_unat_eq_iff)

lemma toLowerCase_unit_piece_ok: "piece_ok u [toLowerCase_unit u]"
  unfolding toLowerCase_unit_def piece_ok_def isWhiteSpace_def unit_of_def
  by (auto simp add: word_le_nat_alt unat_word_ariths word_unat_eq_iff)

lemma toLowerCase_latin1_conforms: "toLowerCase_conforms toLowerCase_latin1"
proof -
  have "toLowerCase_latin1 (toLowerCase_latin1 s) = toLowerCase_latin1 s" for s
    by (simp add: toLowerCase_latin1_def toLowerCase_unit_idem)
  moreover
  have "\<exists>bs. list_all2 piece_ok s bs \<and> toLowerCase_latin1 s = concat bs" for s
  proof (intro exI conjI)
    show "list_all2 piece_ok s (map (\<lambda>u. [toLowerCase_unit u]) s)"
      by (simp add: list_all2_map2 list_all2_same toLowerCase_unit_piece_ok)
    show "toLowerCase_latin1 s = concat (map (\<lambda>u. [toLowerCase_unit u]) s)"
      by (induction s) (simp_all add: toLowerCase_latin1_def)
  qed
  ultimately show ?thesis unfolding toLowerCase_conforms_def by blast
qed

section \<open>Properties of the type guards\<close>

text \<open>
  C9. The basic guards compute the stated predicates on every value: \<open>isNotNull\<close> is
  true exactly for the values other than null and undefined; \<open>isDefined\<close> is true exactly
  for the values other than undefined, so null passes; \<open>isNumber\<close> is true exactly for the
  numbers other than NaN.
\<close>

theorem basic_guards:
  "isNotNull v = (v \<noteq> JNull \<and> v \<noteq> JUndefined)
   \<and> isDefined v = (v \<noteq> JUndefined)
   \<and> isDefined JNull
   \<and> isNumber v = (\<exists>n. v = JNum n \<and> n \<noteq> NaN)
   \<and> \<not> isNumber (JNum NaN)"
  by (simp add: isNotNull_def isDefined_def isNumber_def number_guard_iff)

section \<open>Properties of the error taxonomy\<close>

text \<open>
  C4. Each concrete error kind fixes its own code and status code, whatever the
  caller passes: ValidationError is (VALIDATION_ERROR, 400), UnauthorizedError is
  (UNAUTHORIZED, 401), ForbiddenError is (FORBIDDEN, 403), NotFoundError is
  (NOT_FOUND, 404), ConflictError is (CONFLICT, 409); and NotFoundError builds its
  message as the resource name followed by " not found".
\<close>

theorem error_kinds_fix_code_and_status:
  "code (new_ValidationError m) = Some (str ''VALIDATION_ERROR'')
   \<and> statusCode (new_ValidationError m) = Some (Fin 400)
   \<and> code (new_UnauthorizedError mo) = Some (str ''UNAUTHORIZED'')
   \<and> statusCode (new_UnauthorizedError mo) = Some (Fin 401)
   \<and> code (new_ForbiddenError mo) = Some (str ''FORBIDDEN'')
   \<and> statusCode (new_ForbiddenError mo) = Some (Fin 403)
   \<and> code (new_NotFoundError r) = Some (str ''NOT_FOUND'')
   \<and> statusCode (new_NotFoundError r) = Some (Fin 404)
   \<and> code (new_ConflictError m) = Some (str ''CONFLICT'')
   \<and> statusCode (new_ConflictError m) = Some (Fin 409)
   \<and> message (new_NotFoundError r) = r @ str '' not found''"
  by (simp add: ctor_defs)

text \<open>
  C10. Constructed without a message, UnauthorizedError has the message "Unauthorized"
  (code UNAUTHORIZED, status 401) and ForbiddenError has the message "Forbidden"
  (code FORBIDDEN, status 403).
\<close>

theorem default_messages:
  "message (new_UnauthorizedError None) = str ''Unauthorized''
   \<and> code (new_UnauthorizedError None) = Some (str ''UNAUTHORIZED'')
   \<and> statusCode (new_UnauthorizedError None) = Some (Fin 401)
   \<and> message (new_ForbiddenError None) = str ''Forbidden''
   \<and> code (new_ForbiddenError None) = Some (str ''FORBIDDEN'')
   \<and> statusCode (new_ForbiddenError None) = Some (Fin 403)"
  by (simp add: ctor_defs)

text \<open>
  C8. \<open>isAppError\<close> is true exactly for the instances of AppError and of its five
  subclasses, whichever constructor arguments they were built with, and false for every
  other value: a plain Error, an instance of another error class, or a value that is no
  error object at all.
\<close>

theorem isAppError_taxonomy:
  "isAppError v =
     (\<exists>e. v = JErr e \<and> (cls e = AppErrorC \<or> cls e = ValidationErrorC \<or> cls e = NotFoundErrorC
        \<or> cls e = UnauthorizedErrorC \<or> cls e = ForbiddenErrorC \<or> cls e = ConflictErrorC))
   \<and> isAppError (JErr (new_AppError m c sc))
   \<and> isAppError (JErr (new_ValidationError m))
   \<and> isAppError (JErr (new_NotFoundError m))
   \<and> isAppError (JErr (new_UnauthorizedError mo))
   \<and> isAppError (JErr (new_ForbiddenError mo))
   \<and> isAppError (JErr (new_ConflictError m))
   \<and> \<not> isAppError (JErr (new_Error m))
   \<and> isAppError (JErr (new_ValidationError (str ''m'')))
   \<and> \<not> isAppError (JErr (new_Error (str ''m'')))"
proof -
  have "isAppError v =
     (\<exists>e. v = JErr e \<and> (cls e = AppErrorC \<or> cls e = ValidationErrorC \<or> cls e = NotFoundErrorC
        \<or> cls e = UnauthorizedErrorC \<or> cls e = ForbiddenErrorC \<or> cls e = ConflictErrorC))"
  proof (cases v)
    case (JErr e)
    then show ?thesis by (cases "cls e") (simp_all add: isAppError_def)
  qed (simp_all add: isAppError_def)
  then show ?thesis by (simp add: isAppError_def ctor_defs)
qed

section \<open>Properties of the validation helpers\<close>

text \<open>
  C5. \<open>validateRequired\<close> throws exactly when the value is null or undefined, and what
  it throws is then a ValidationError (code VALIDATION_ERROR, status 400) whose message
  is the field name followed by " is required"; otherwise it returns the value itself.
  The number 0, falsy but present, is returned.
\<close>

theorem validateRequired_exactly_when_missing:
  "(validateRequired v f = Inl (new_ValidationError (f @ str '' is required'')))
     = (v = JNull \<or> v = JUndefined)
   \<and> (\<exists>e. validateRequired v f = Inl e) = (v = JNull \<or> v = JUndefined)
   \<and> (v = JNull \<or> v = JUndefined \<longrightarrow>
        (\<exists>e. validateRequired v f = Inl e
           \<and> message e = f @ str '' is required''
           \<and> instanceof (JErr e) ValidationErrorC
           \<and> name e = str ''ValidationError''
           \<and> code e = Some (str ''VALIDATION_ERROR'')
           \<and> statusCode e = Some (Fin 400)))
   \<and> (v \<noteq> JNull \<and> v \<noteq> JUndefined \<longrightarrow> validateRequired v f = Inr v)
   \<and> validateRequired (JNum (Fin 0)) (str ''x'') = Inr (JNum (Fin 0))"
proof -
  have missing: "validateRequired v f = Inl (new_ValidationError (f @ str '' is required''))"
    if "v = JNull \<or> v = JUndefined"
    using that by (auto simp add: validateRequired_def isNotNull_def)
  have present: "validateRequired v f = Inr v" if "v \<noteq> JNull \<and> v \<noteq> JUndefined"
    using that by (simp add: validateRequired_def isNotNull_def)
  have fields: "message (new_ValidationError (f @ str '' is required'')) = f @ str '' is required''
      \<and> instanceof (JErr (new_ValidationError (f @ str '' is required''))) ValidationErrorC
      \<and> name (new_ValidationError (f @ str '' is required'')) = str ''ValidationError''
      \<and> code (new_ValidationError (f @ str '' is required'')) = Some (str ''VALIDATION_ERROR'')
      \<and> statusCode (new_ValidationError (f @ str '' is required'')) = Some (Fin 400)"
    by (simp add: new_ValidationError_fields)
  have zero: "validateRequired (JNum (Fin 0)) (str ''x'') = Inr (JNum (Fin 0))"
    by (simp add: validateRequired_def isNotNull_def)
  show ?thesis
  proof (cases "v = JNull \<or> v = JUndefined")
    case True
    with missing [OF True] fields zero show ?thesis by auto
  next
    case False
    then have "v \<noteq> JNull \<and> v \<noteq> JUndefined" by simp
    from present [OF this] False zero show ?thesis by auto
  qed
qed

text \<open>
  C5, at concrete inputs: null and undefined under the field name "x" throw an error
  with the message "x is required"; the empty string is returned.
\<close>

theorem validateRequired_exactly_when_missing_witness:
  "(\<exists>e. validateRequired JNull (str ''x'') = Inl e \<and> message e = str ''x is required''
        \<and> instanceof (JErr e) ValidationErrorC)
   \<and> (\<exists>e. validateRequired JUndefined (str ''x'') = Inl e \<and> message e = str ''x is required''
        \<and> instanceof (JErr e) ValidationErrorC)
   \<and> validateRequired (JStr []) (str ''x'') = Inr (JStr [])"
proof -
  have lit: "str ''x'' @ str '' is required'' = str ''x is required''"
    by (simp add: str_def)
  have "\<exists>e. validateRequired JNull (str ''x'') = Inl e
        \<and> message e = str ''x'' @ str '' is required'' \<and> instanceof (JErr e) ValidationErrorC"
    using validateRequired_exactly_when_missing [of JNull "str ''x''"] by blast
  moreover
  have "\<exists>e. validateRequired JUndefined (str ''x'') = Inl e
        \<and> message e = str ''x'' @ str '' is required'' \<and> instanceof (JErr e) ValidationErrorC"
    using validateRequired_exactly_when_missing [of JUndefined "str ''x''"] by blast
  moreover
  have "JStr [] \<noteq> JNull \<and> JStr [] \<noteq> JUndefined" by simp
  then have "validateRequired (JStr []) (str ''x'') = Inr (JStr [])"
    using validateRequired_exactly_when_missing [of "JStr []" "str ''x''"] by blast
  ultimately show ?thesis by (simp add: lit)
qed

lemma emailRegex_rejects_padded_example:
  "\<not> regex_test emailRegex (str ''USER@Example.com '')"
  by code_simp

text \<open>
  C1. The example of the specification, \<open>validateEmail("USER@Example.com ")\<close> with its
  trailing space, does not return "user@example.com": the pattern is tested before the
  input is trimmed and \<^verbatim>\<open>[^\s@]+$\<close> admits no white space, so the call throws
  a ValidationError with the message "Invalid email format", whatever the host's
  lower-casing does. (Lemma \<open>validateEmail_general\<close> above gives the result on every
  input; on an accepted string \<open>trim\<close> has nothing left to remove.)
\<close>

theorem validateEmail_rejects_padded_input:
  "validateEmail lower (JStr (str ''USER@Example.com ''))
     = Inl (new_ValidationError (str ''Invalid email format''))
   \<and> message (new_ValidationError (str ''Invalid email format'')) = str ''Invalid email format''
   \<and> instanceof (JErr (new_ValidationError (str ''Invalid email format''))) ValidationErrorC"
  by (simp add: validateEmail_general emailRegex_rejects_padded_example
      new_ValidationError_fields)

text \<open>
  Had the input been trimmed before the test, the same example would be accepted with
  the result the specification gives.
\<close>

lemma validateEmail_of_trimmed_example:
  "validateEmail toLowerCase_latin1 (JStr (trim (str ''USER@Example.com '')))
     = Inr (str ''user@example.com'')"
  by code_simp

text \<open>
  C3, as the specification states it, fails: positive infinity is not a finite number,
  yet without bounds \<open>validateNumberRange\<close> returns it.
\<close>

theorem validateNumberRange_accepts_infinity:
  "\<not> Number_isFinite (JNum PosInf)
   \<and> validateNumberRange Number_toString_integral (JNum PosInf) (str ''age'')
        \<lparr>min_opt = None, max_opt = None\<rparr> = Inr PosInf"
  by (simp add: validateNumberRange_def)

text \<open>
  C3, amended. \<open>validateNumberRange\<close> throws the ValidationError
  "<fieldName> must be a number" when the value is not a number or is NaN; for a number
  other than NaN it throws a ValidationError when a given lower bound is above it or a
  given upper bound is below it, and returns the number unchanged otherwise. The
  infinities are numbers: without bounds they are returned.
\<close>

theorem validateNumberRange_by_kind_and_bounds:
  "(((\<forall>n. v \<noteq> JNum n) \<or> v = JNum NaN) \<longrightarrow>
      validateNumberRange ts v f c = Inl (new_ValidationError (f @ str '' must be a number'')))
   \<and> (n \<noteq> NaN \<and> ((\<exists>lo. min_opt c = Some lo \<and> num_less n lo)
                    \<or> (\<exists>hi. max_opt c = Some hi \<and> num_less hi n)) \<longrightarrow>
      (\<exists>m. validateNumberRange ts (JNum n) f c = Inl (new_ValidationError m)))
   \<and> (n \<noteq> NaN \<and> \<not> (\<exists>lo. min_opt c = Some lo \<and> num_less n lo)
               \<and> \<not> (\<exists>hi. max_opt c = Some hi \<and> num_less hi n) \<longrightarrow>
      validateNumberRange ts (JNum n) f c = Inr n)
   \<and> validateNumberRange ts (JNum PosInf) f \<lparr>min_opt = None, max_opt = None\<rparr> = Inr PosInf
   \<and> validateNumberRange ts (JNum NegInf) f \<lparr>min_opt = None, max_opt = None\<rparr> = Inr NegInf"
proof -
  have not_number: "((\<forall>n. v \<noteq> JNum n) \<or> v = JNum NaN) \<longrightarrow>
      validateNumberRange ts v f c = Inl (new_ValidationError (f @ str '' must be a number''))"
  proof
    assume "(\<forall>n. v \<noteq> JNum n) \<or> v = JNum NaN"
    then have "typeof v \<noteq> str ''number'' \<or> Number_isNaN v"
      using number_guard_iff [of v] by auto
    then show "validateNumberRange ts v f c
        = Inl (new_ValidationError (f @ str '' must be a number''))"
      unfolding validateNumberRange_def by (rule if_P)
  qed
  have g: "\<not> (typeof (JNum n) \<noteq> str ''number'' \<or> Number_isNaN (JNum n))" if "n \<noteq> NaN" for n
    using that by (cases n) simp_all
  have violated: "n \<noteq> NaN \<and> ((\<exists>lo. min_opt c = Some lo \<and> num_less n lo)
                    \<or> (\<exists>hi. max_opt c = Some hi \<and> num_less hi n)) \<longrightarrow>
      (\<exists>m. validateNumberRange ts (JNum n) f c = Inl (new_ValidationError m))"
    using g [of n] by (auto simp add: validateNumberRange_def)
  have ok: "n \<noteq> NaN \<and> \<not> (\<exists>lo. min_opt c = Some lo \<and> num_less n lo)
               \<and> \<not> (\<exists>hi. max_opt c = Some hi \<and> num_less hi n) \<longrightarrow>
      validateNumberRange ts (JNum n) f c = Inr n"
    using g [of n] by (auto simp add: validateNumberRange_def)
  have inf: "validateNumberRange ts (JNum PosInf) f \<lparr>min_opt = None, max_opt = None\<rparr> = Inr PosInf"
    "validateNumberRange ts (JNum NegInf) f \<lparr>min_opt = None, max_opt = None\<rparr> = Inr NegInf"
    by (simp_all add: validateNumberRange_def)
  from not_number violated ok inf show ?thesis by blast
qed

text \<open>
  C3 amended, at concrete inputs: a string, 150 and 42 against the bounds 0 and 120.
\<close>

theorem validateNumberRange_by_kind_and_bounds_witness:
  "validateNumberRange Number_toString_integral (JStr (str ''42'')) (str ''age'')
      \<lparr>min_opt = Some (Fin 0), max_opt = Some (Fin 120)\<rparr>
     = Inl (new_ValidationError (str ''age must be a number''))
   \<and> (\<exists>m. validateNumberRange Number_toString_integral (JNum (Fin 150)) (str ''age'')
          \<lparr>min_opt = Some (Fin 0), max_opt = Some (Fin 120)\<rparr> = Inl (new_ValidationError m))
   \<and> validateNumberRange Number_toString_integral (JNum (Fin 42)) (str ''age'')
        \<lparr>min_opt = Some (Fin 0), max_opt = Some (Fin 120)\<rparr> = Inr (Fin 42)"
  using validateNumberRange_by_kind_and_bounds
      [of "JStr (str ''42'')" Number_toString_integral "str ''age''"
          "\<lparr>min_opt = Some (Fin 0), max_opt = Some (Fin 120)\<rparr>" "Fin 150"]
    validateNumberRange_by_kind_and_bounds
      [of "JStr (str ''42'')" Number_toString_integral "str ''age''"
          "\<lparr>min_opt = Some (Fin 0), max_opt = Some (Fin 120)\<rparr>" "Fin 42"]
  by (simp add: str_def)

lemma validateRequired_only_VE:
  "(\<exists>y. validateRequired v f = Inr y) \<or> (\<exists>m. validateRequired v f = Inl (new_ValidationError m))"
  by (auto simp add: validateRequired_def)

lemma validateEmail_only_VE:
  "(\<exists>y. validateEmail lower v = Inr y)
   \<or> (\<exists>m. validateEmail lower v = Inl (new_ValidationError m))"
  by (auto simp add: validateEmail_def)

lemma validateUrl_only_VE:
  "(\<exists>y. validateUrl new_URL v = Inr y) \<or> (\<exists>m. validateUrl new_URL v = Inl (new_ValidationError m))"
  by (cases "new_URL (string_of v)") (auto simp add: validateUrl_def)

lemma validateStringLength_only_VE:
  "(\<exists>y. validateStringLength ts v f c = Inr y)
   \<or> (\<exists>m. validateStringLength ts v f c = Inl (new_ValidationError m))"
  by (auto simp add: validateStringLength_def)

lemma validateNumberRange_only_VE:
  "(\<exists>y. validateNumberRange ts v f c = Inr y)
   \<or> (\<exists>m. validateNumberRange ts v f c = Inl (new_ValidationError m))"
  by (auto simp add: validateNumberRange_def)

lemma validateEnum_only_VE:
  "(\<exists>y. validateEnum v f allowed = Inr y)
   \<or> (\<exists>m. validateEnum v f allowed = Inl (new_ValidationError m))"
  by (auto simp add: validateEnum_def)

lemma validateArray_only_VE:
  "(\<exists>y. validateArray ts v f ac = Inr y)
   \<or> (\<exists>m. validateArray ts v f ac = Inl (new_ValidationError m))"
  by (auto simp add: validateArray_def)

lemma ValidationError_class:
  "cls (new_ValidationError m) = ValidationErrorC
   \<and> instanceof (JErr (new_ValidationError m)) ValidationErrorC
   \<and> \<not> instanceof (JErr (new_ValidationError m)) UnauthorizedErrorC
   \<and> \<not> instanceof (JErr (new_ValidationError m)) ForbiddenErrorC
   \<and> \<not> instanceof (JErr (new_ValidationError m)) NotFoundErrorC
   \<and> \<not> instanceof (JErr (new_ValidationError m)) ConflictErrorC"
  by (simp add: ctor_defs)

text \<open>
  C2. On every input, each of the seven helpers either returns a value or throws an
  object built by the ValidationError constructor, for every lower-casing, URL parser and
  Number-to-string conversion of the host; in particular an exception of the URL parser
  never leaves \<open>validateUrl\<close>. Such an object is an instance of ValidationError and of
  none of UnauthorizedError, ForbiddenError, NotFoundError and ConflictError.
\<close>

theorem helpers_raise_only_ValidationError:
  "((\<exists>y. validateRequired v f = Inr y) \<or> (\<exists>m. validateRequired v f = Inl (new_ValidationError m)))
   \<and> ((\<exists>y. validateEmail lower v = Inr y)
        \<or> (\<exists>m. validateEmail lower v = Inl (new_ValidationError m)))
   \<and> ((\<exists>y. validateUrl new_URL v = Inr y)
        \<or> (\<exists>m. validateUrl new_URL v = Inl (new_ValidationError m)))
   \<and> ((\<exists>y. validateStringLength ts v f c = Inr y)
        \<or> (\<exists>m. validateStringLength ts v f c = Inl (new_ValidationError m)))
   \<and> ((\<exists>y. validateNumberRange ts v f c = Inr y)
        \<or> (\<exists>m. validateNumberRange ts v f c = Inl (new_ValidationError m)))
   \<and> ((\<exists>y. validateEnum v f allowed = Inr y)
        \<or> (\<exists>m. validateEnum v f allowed = Inl (new_ValidationError m)))
   \<and> ((\<exists>y. validateArray ts v f ac = Inr y)
        \<or> (\<exists>m. validateArray ts v f ac = Inl (new_ValidationError m)))
   \<and> cls (new_ValidationError msg) = ValidationErrorC
   \<and> instanceof (JErr (new_ValidationError msg)) ValidationErrorC
   \<and> \<not> instanceof (JErr (new_ValidationError msg)) UnauthorizedErrorC
   \<and> \<not> instanceof (JErr (new_ValidationError msg)) ForbiddenErrorC
   \<and> \<not> instanceof (JErr (new_ValidationError msg)) NotFoundErrorC
   \<and> \<not> instanceof (JErr (new_ValidationError msg)) ConflictErrorC"
  using validateRequired_only_VE [of v f] validateEmail_only_VE [of lower v]
    validateUrl_only_VE [of new_URL v] validateStringLength_only_VE [of ts v f c]
    validateNumberRange_only_VE [of ts v f c] validateEnum_only_VE [of v f allowed]
    validateArray_only_VE [of ts v f ac] ValidationError_class [of msg]
  by blast

text \<open>
  C2, at a concrete input: the string "not-an-email" passes \<open>validateRequired\<close> and is
  rejected by the six other helpers, each time with a ValidationError; the TypeError of
  the rejecting URL parser does not come out of \<open>validateUrl\<close>.
\<close>

theorem helpers_raise_only_ValidationError_witness:
  "(\<exists>y. validateRequired (JStr (str ''not-an-email'')) (str ''x'') = Inr y)
   \<and> (\<exists>m. validateEmail toLowerCase_latin1 (JStr (str ''not-an-email''))
          = Inl (new_ValidationError m))
   \<and> (\<exists>m. validateUrl new_URL_rejecting (JStr (str ''not-an-email''))
          = Inl (new_ValidationError m))
   \<and> (\<exists>m. validateStringLength Number_toString_integral (JStr (str ''not-an-email'')) (str ''x'')
          \<lparr>min_opt = Some (Fin 20), max_opt = None\<rparr> = Inl (new_ValidationError m))
   \<and> (\<exists>m. validateNumberRange Number_toString_integral (JStr (str ''not-an-email'')) (str ''x'')
          \<lparr>min_opt = Some (Fin 20), max_opt = None\<rparr> = Inl (new_ValidationError m))
   \<and> (\<exists>m. validateEnum (JStr (str ''not-an-email'')) (str ''x'') [str ''admin'', str ''user'']
          = Inl (new_ValidationError m))
   \<and> (\<exists>m. validateArray Number_toString_integral (JStr (str ''not-an-email'')) (str ''x'') None
          = Inl (new_ValidationError m))"
proof -
  let ?v = "JStr (str ''not-an-email'')"
  let ?c = "\<lparr>min_opt = Some (Fin 20), max_opt = None\<rparr>"
  note t = helpers_raise_only_ValidationError
      [of ?v "str ''x''" toLowerCase_latin1 new_URL_rejecting Number_toString_integral ?c
          "[str ''admin'', str ''user'']" None]
  have "\<not> isl (validateRequired ?v (str ''x''))"
    by (simp add: validateRequired_def isNotNull_def)
  moreover have "isl (validateEmail toLowerCase_latin1 ?v)"
    by code_simp
  moreover have "isl (validateUrl new_URL_rejecting ?v)"
    by (simp add: validateUrl_def isString_JStr new_URL_rejecting_def)
  moreover have "isl (validateStringLength Number_toString_integral ?v (str ''x'') ?c)"
    by (simp add: validateStringLength_def isString_JStr length_num_def str_def)
  moreover have "isl (validateNumberRange Number_toString_integral ?v (str ''x'') ?c)"
    by (simp add: validateNumberRange_def literal_defs)
  moreover have "isl (validateEnum ?v (str ''x'') [str ''admin'', str ''user''])"
    by (simp add: validateEnum_def isString_JStr literal_defs)
  moreover have "isl (validateArray Number_toString_integral ?v (str ''x'') None)"
    by (simp add: validateArray_def)
  ultimately show ?thesis
    using t by (metis sum.disc(1) sum.disc(2))
qed

lemma validateRequired_idem:
  "validateRequired x f = Inr y \<Longrightarrow> validateRequired y f = Inr y"
  by (auto simp add: validateRequired_def split: if_splits)

lemma validateUrl_idem:
  "validateUrl new_URL x = Inr s \<Longrightarrow> validateUrl new_URL (JStr s) = Inr s"
  by (cases x) (auto simp add: validateUrl_def isString_iff split: if_splits sum.splits)

lemma validateStringLength_idem:
  "validateStringLength ts x f c = Inr s \<Longrightarrow> validateStringLength ts (JStr s) f c = Inr s"
  by (cases x) (auto simp add: validateStringLength_def isString_iff split: if_splits)

lemma validateNumberRange_idem:
  assumes "validateNumberRange ts x f c = Inr n"
  shows "validateNumberRange ts (JNum n) f c = Inr n"
proof -
  from assms have "typeof x = str ''number'' \<and> \<not> Number_isNaN x"
    by (auto simp add: validateNumberRange_def split: if_splits)
  then obtain m where "x = JNum m" using number_guard_iff [of x] by auto
  with assms show ?thesis
    by (auto simp add: validateNumberRange_def split: if_splits)
qed

lemma validateEnum_idem:
  "validateEnum x f allowed = Inr s \<Longrightarrow> validateEnum (JStr s) f allowed = Inr s"
  by (cases x) (auto simp add: validateEnum_def isString_iff split: if_splits)

lemma validateArray_idem:
  "validateArray ts x f ac = Inr xs \<Longrightarrow> validateArray ts (JArr xs) f ac = Inr xs"
  by (cases x) (auto simp add: validateArray_def split: if_splits)

text \<open>
  C6. Each helper is idempotent on its own output: when it returns a result, calling
  it again on that result, with the same field name and constraints, returns the same
  result. The input is any value, a string any sequence of UTF-16 code units. For
  \<open>validateEmail\<close> this holds with every lower-casing of the host that has the two
  properties of \<open>toLowerCase_conforms\<close>; the other six helpers return their input.
\<close>

theorem helpers_idempotent:
  "(validateRequired x1 f = Inr y \<longrightarrow> validateRequired y f = Inr y)
   \<and> (toLowerCase_conforms lower \<and> validateEmail lower x2 = Inr e \<longrightarrow>
        validateEmail lower (JStr e) = Inr e)
   \<and> (validateUrl new_URL x3 = Inr u \<longrightarrow> validateUrl new_URL (JStr u) = Inr u)
   \<and> (validateStringLength ts x4 f c = Inr s \<longrightarrow> validateStringLength ts (JStr s) f c = Inr s)
   \<and> (validateNumberRange ts x5 f c = Inr n \<longrightarrow> validateNumberRange ts (JNum n) f c = Inr n)
   \<and> (validateEnum x6 f allowed = Inr a \<longrightarrow> validateEnum (JStr a) f allowed = Inr a)
   \<and> (validateArray ts x7 f ac = Inr xs \<longrightarrow> validateArray ts (JArr xs) f ac = Inr xs)"
  using validateRequired_idem [of x1 f y] validateEmail_idem [of lower x2 e]
    validateUrl_idem [of new_URL x3 u] validateStringLength_idem [of ts x4 f c s]
    validateNumberRange_idem [of ts x5 f c n] validateEnum_idem [of x6 f allowed a]
    validateArray_idem [of ts x7 f ac xs]
  by blast

lemma ex_email:
  "validateEmail toLowerCase_latin1 (JStr (str ''USER@Example.com'')) = Inr (str ''user@example.com'')"
  by code_simp

lemma ex_required: "validateRequired (JNum (Fin 0)) (str ''n'') = Inr (JNum (Fin 0))"
  by (simp add: validateRequired_def isNotNull_def)

lemma ex_url:
  "validateUrl Inr (JStr (str ''https://example.com'')) = Inr (str ''https://example.com'')"
  by (simp add: validateUrl_def isString_JStr)

lemma ex_strlen:
  "validateStringLength Number_toString_integral (JStr (str ''abcdefgh'')) (str ''n'')
     \<lparr>min_opt = Some (Fin 1), max_opt = Some (Fin 100)\<rparr> = Inr (str ''abcdefgh'')"
  by (simp add: validateStringLength_def isString_JStr length_num_def str_def)

lemma ex_numrange:
  "validateNumberRange Number_toString_integral (JNum (Fin 42)) (str ''n'')
     \<lparr>min_opt = Some (Fin 1), max_opt = Some (Fin 100)\<rparr> = Inr (Fin 42)"
  by (simp add: validateNumberRange_def)

lemma ex_enum:
  "validateEnum (JStr (str ''admin'')) (str ''n'') [str ''admin'', str ''user'', str ''guest'']
     = Inr (str ''admin'')"
  by (simp add: validateEnum_def isString_JStr)

lemma ex_array:
  "validateArray Number_toString_integral (JArr [JNum (Fin 1), JNum (Fin 2)]) (str ''n'')
     (Some \<lparr>minLength = Some (Fin 1), maxLength = Some (Fin 10)\<rparr>)
     = Inr [JNum (Fin 1), JNum (Fin 2)]"
  by (simp add: validateArray_def optional_chain_def length_num_def)

text \<open>
  C6, at concrete inputs, one accepted by each helper; the lower-casing is
  \<open>toLowerCase_latin1\<close>, which has the two properties.
\<close>

theorem helpers_idempotent_witness:
  "toLowerCase_conforms toLowerCase_latin1
   \<and> validateRequired (JNum (Fin 0)) (str ''n'') = Inr (JNum (Fin 0))
   \<and> validateEmail toLowerCase_latin1 (JStr (str ''USER@Example.com''))
       = Inr (str ''user@example.com'')
   \<and> validateEmail toLowerCase_latin1 (JStr (str ''user@example.com''))
       = Inr (str ''user@example.com'')
   \<and> validateUrl Inr (JStr (str ''https://example.com'')) = Inr (str ''https://example.com'')
   \<and> validateStringLength Number_toString_integral (JStr (str ''abcdefgh'')) (str ''n'')
        \<lparr>min_opt = Some (Fin 1), max_opt = Some (Fin 100)\<rparr> = Inr (str ''abcdefgh'')
   \<and> validateNumberRange Number_toString_integral (JNum (Fin 42)) (str ''n'')
        \<lparr>min_opt = Some (Fin 1), max_opt = Some (Fin 100)\<rparr> = Inr (Fin 42)
   \<and> validateEnum (JStr (str ''admin'')) (str ''n'') [str ''admin'', str ''user'', str ''guest'']
       = Inr (str ''admin'')
   \<and> validateArray Number_toString_integral (JArr [JNum (Fin 1), JNum (Fin 2)]) (str ''n'')
        (Some \<lparr>minLength = Some (Fin 1), maxLength = Some (Fin 10)\<rparr>)
        = Inr [JNum (Fin 1), JNum (Fin 2)]"
  using helpers_idempotent
      [where ?x1.0 = "JNum (Fin 0)" and f = "str ''n''" and y = "JNum (Fin 0)"
         and lower = toLowerCase_latin1
         and ?x2.0 = "JStr (str ''USER@Example.com'')" and e = "str ''user@example.com''"
         and new_URL = "Inr :: jsstring \<Rightarrow> errobj + jsstring"
         and ?x3.0 = "JStr (str ''https://example.com'')" and u = "str ''https://example.com''"
         and ts = Number_toString_integral and ?x4.0 = "JStr (str ''abcdefgh'')"
         and c = "\<lparr>min_opt = Some (Fin 1), max_opt = Some (Fin 100)\<rparr>"
         and s = "str ''abcdefgh''"
         and ?x5.0 = "JNum (Fin 42)" and n = "Fin 42"
         and ?x6.0 = "JStr (str ''admin'')"
         and allowed = "[str ''admin'', str ''user'', str ''guest'']"
         and a = "str ''admin''"
         and ?x7.0 = "JArr [JNum (Fin 1), JNum (Fin 2)]"
         and ac = "Some \<lparr>minLength = Some (Fin 1), maxLength = Some (Fin 10)\<rparr>"
         and xs = "[JNum (Fin 1), JNum (Fin 2)]"]
    toLowerCase_latin1_conforms ex_email ex_required ex_url ex_strlen ex_numrange ex_enum
    ex_array
  by blast

section \<open>Properties of the response envelope\<close>

text \<open>
  C7. \<open>successResponse d\<close> is the object \<open>{success: true, data: d}\<close> and has no
  \<open>error\<close> and no \<open>code\<close> property; \<open>errorResponse m c\<close> is the object
  \<open>{success: false, error: m, code: c}\<close>, with \<open>code\<close> undefined when the argument is
  omitted, and has no \<open>data\<close> property.
\<close>

theorem response_envelope_shapes:
  "successResponse d = JObj [(str ''success'', JBool True), (str ''data'', d)]
   \<and> \<not> hasOwnProperty (successResponse d) (str ''error'')
   \<and> \<not> hasOwnProperty (successResponse d) (str ''code'')
   \<and> errorResponse m (Some c)
       = JObj [(str ''success'', JBool False), (str ''error'', JStr m), (str ''code'', JStr c)]
   \<and> errorResponse m None
       = JObj [(str ''success'', JBool False), (str ''error'', JStr m), (str ''code'', JUndefined)]
   \<and> \<not> hasOwnProperty (errorResponse m co) (str ''data'')
   \<and> successResponse (JNum (Fin 42))
       = JObj [(str ''success'', JBool True), (str ''data'', JNum (Fin 42))]
   \<and> errorResponse (str ''bad'') (Some (str ''X''))
       = JObj [(str ''success'', JBool False), (str ''error'', JStr (str ''bad'')),
               (str ''code'', JStr (str ''X''))]"
  by (simp add: successResponse_def errorResponse_def literal_defs)

end
